theory Spec2Isabelle
  imports Complex_Main
begin

section \<open>Workspace manager: live statistics broadcast and session gate\<close>

text \<open>
  A shallow embedding of the server in \<^verbatim>\<open>app.js\<close> (three listings of it are in
  \<^verbatim>\<open>src/unnamed/part_000\<close>, followed by \<^verbatim>\<open>middleware/auth.js\<close>), of the JSON API
  router \<^verbatim>\<open>routes/api/projects.js\<close> (\<^verbatim>\<open>src/unnamed/part_001\<close>) and of the two
  mongoose schemas. The listings of \<^verbatim>\<open>app.js\<close> are called the first (lines 1-252),
  the second (253-489) and the third (490-871).
\<close>

subsection \<open>Records of the store\<close>

text \<open>
  \<^verbatim>\<open>ProjectSchema\<close>: \<^verbatim>\<open>title\<close> (required), \<^verbatim>\<open>description\<close>, \<^verbatim>\<open>progress\<close>;
  \<^verbatim>\<open>TaskSchema\<close>: \<^verbatim>\<open>title\<close> (required), \<^verbatim>\<open>completed\<close>, \<^verbatim>\<open>projectId\<close>.
  An ObjectId is a natural number. A field that a stored document may lack is an option.
  Both schemas have the option \<^verbatim>\<open>timestamps: true\<close>: every document has
  \<^verbatim>\<open>createdAt\<close> and \<^verbatim>\<open>updatedAt\<close>, which \<^verbatim>\<open>save()\<close> sets to the time of
  the clock (in milliseconds) when the document is new, and of which it sets
  \<^verbatim>\<open>updatedAt\<close> again whenever it writes a document that was changed. (The version
  key \<^verbatim>\<open>__v\<close>, which no operation here changes, is left out.)
\<close>

type_synonym objectId = nat

record project =
  p_id :: objectId
  p_title :: string
  p_description :: "string option"
  p_progress :: "int option"
  p_createdAt :: nat
  p_updatedAt :: nat

record task =
  t_id :: objectId
  t_title :: string
  completed :: bool
  projectId :: "objectId option"
  t_createdAt :: nat
  t_updatedAt :: nat

datatype error =
    StoreError
  | ValidationError
  | CastError
  | TypeError
  | JsonWebTokenError
  | TokenExpiredError

subsection \<open>Numbers\<close>

text \<open>
  A JavaScript number is an IEEE 754 double. The values met here are finite and not
  negative, so a number is the rational it denotes, and an operation returns the double
  nearest to the exact result (ties to the even significand). \<open>ilog2 n\<close> is the position
  of the leading bit of \<open>n\<close>.
\<close>

function ilog2 :: "int \<Rightarrow> int" where
  "ilog2 n = (if n < 2 then 0 else 1 + ilog2 (n div 2))"
  by pat_completeness auto
termination
  by (relation "measure nat") auto

declare ilog2.simps [simp del]

definition pow2 :: "int \<Rightarrow> rat" where
  "pow2 e = (if 0 \<le> e then 2 ^ nat e else 1 / 2 ^ nat (- e))"

text \<open>The exponent \<open>e\<close> of a positive rational: \<open>2 ^ e \<le> x < 2 ^ (e + 1)\<close>.\<close>

definition exponent :: "rat \<Rightarrow> int" where
  "exponent x =
     (let (a, b) = quotient_of x;
          d = ilog2 a - ilog2 b
      in if pow2 d \<le> x then d else d - 1)"

text \<open>Rounding to the nearest integer, a tie going to the even one.\<close>

definition round_half_even :: "rat \<Rightarrow> int" where
  "round_half_even r =
     (let f = \<lfloor>r\<rfloor>; d = r - of_int f
      in if d < 1 / 2 then f
         else if 1 / 2 < d then f + 1
         else if even f then f else f + 1)"

text \<open>
  \<open>fl x\<close> is the double nearest to \<open>x \<ge> 0\<close>: 53 significant bits, the exponent no
  smaller than that of the subnormal numbers. (No value here comes near the largest
  double.)
\<close>

definition fl :: "rat \<Rightarrow> rat" where
  "fl x =
     (if x \<le> 0 then 0
      else let ulp = pow2 (max (exponent x) (- 1022) - 52)
           in of_int (round_half_even (x / ulp)) * ulp)"

definition js_div :: "rat \<Rightarrow> rat \<Rightarrow> rat" where
  "js_div x y = fl (x / y)"

definition js_mul :: "rat \<Rightarrow> rat \<Rightarrow> rat" where
  "js_mul x y = fl (x * y)"

text \<open>\<^verbatim>\<open>Math.round\<close>: the nearest integer, a tie going up.\<close>

definition Math_round :: "rat \<Rightarrow> int" where
  "Math_round x = \<lfloor>x + 1 / 2\<rfloor>"

subsection \<open>Stats aggregator\<close>

record summary =
  s_id :: objectId
  s_name :: string
  s_description :: "string option"
  s_progress :: int

record stats =
  totalProjects :: nat
  totalTasks :: nat
  overallCompletion :: int
  projects :: "summary list"

text \<open>\<^verbatim>\<open>p.progress || 0\<close>: a missing progress and the progress 0 both give 0.\<close>

definition progress_or_0 :: "int option \<Rightarrow> int" where
  "progress_or_0 x = (case x of None \<Rightarrow> 0 | Some n \<Rightarrow> if n = 0 then 0 else n)"

definition summarise :: "project \<Rightarrow> summary" where
  "summarise p =
     \<lparr> s_id = p_id p, s_name = p_title p, s_description = p_description p,
       s_progress = progress_or_0 (p_progress p) \<rparr>"

text \<open>
  The body of \<^verbatim>\<open>computeStats\<close> after its two reads (lines 59-74 of the first listing):
  \<^verbatim>\<open>
  const completed = tasks.filter(t => t.completed).length;
  return {
    totalProjects: projects.length,
    totalTasks: tasks.length,
    overallCompletion:
      tasks.length === 0 ? 0 : Math.round((completed / tasks.length) * 100),
    projects: projects.map(p => ({ id: p._id, name: p.title,
      description: p.description, progress: p.progress || 0 }))
  };
  \<close>
\<close>

definition completion :: "nat \<Rightarrow> nat \<Rightarrow> int" where
  "completion done n =
     (if n = 0 then 0
      else Math_round (js_mul (js_div (of_nat done) (of_nat n)) 100))"

definition stats_of :: "project list \<Rightarrow> task list \<Rightarrow> stats" where
  "stats_of ps ts =
     (let done = length (filter completed ts)
      in \<lparr> totalProjects = length ps,
           totalTasks = length ts,
           overallCompletion = completion done (length ts),
           projects = map summarise ps \<rparr>)"

subsection \<open>The process state\<close>

text \<open>
  The store (mongoose, on MongoDB) is outside the repository. It is modelled as two
  collections in insertion order, a flag that says whether the database answers, the
  next ObjectId, and the clock \<^verbatim>\<open>Date.now()\<close> that the timestamps are taken from.
  \<open>clients\<close> is \<^verbatim>\<open>wss.clients\<close>, in insertion order. \<open>broadcasts\<close> is a ghost
  counter: the number of calls of \<^verbatim>\<open>broadcastStats\<close> so far.
\<close>

datatype message = Info string | Stats stats

text \<open>
  A live connection: \<^verbatim>\<open>readyState\<close> is 0 (connecting), 1 (open), 2 (closing) or
  3 (closed); \<open>sent\<close> lists the messages handed to \<^verbatim>\<open>send\<close> on this socket, the
  oldest first. A message is the object given to \<^verbatim>\<open>JSON.stringify\<close>, which is a
  function of that object. \<open>intact\<close> says whether the transport under the socket still
  carries data, and \<open>received\<close> lists the messages that have reached the client. A
  socket whose transport is gone stays open until the socket library notices; a send
  on it fails, which the caller of \<^verbatim>\<open>send\<close> does not see: the call returns as ever
  (it throws on a connecting socket only, and is given no callback here), the message
  is lost, and the failure shows later, as the socket's \<^verbatim>\<open>close\<close> event.
\<close>

record connection =
  cid :: nat
  readyState :: nat
  sent :: "message list"
  received :: "message list"
  intact :: bool

record state =
  Project_docs :: "project list"
  Task_docs :: "task list"
  reachable :: bool
  fresh :: objectId
  clients :: "connection list"
  broadcasts :: nat
  date_now :: nat

subsection \<open>Repository facade\<close>

definition Project_find :: "state \<Rightarrow> error + project list" where
  "Project_find s = (if reachable s then Inr (Project_docs s) else Inl StoreError)"

definition Task_find :: "state \<Rightarrow> error + task list" where
  "Task_find s = (if reachable s then Inr (Task_docs s) else Inl StoreError)"

text \<open>
  \<^verbatim>\<open>findById\<close>: the id of the URL is \<open>None\<close> when the string is no ObjectId (the
  cast fails), and the answer is \<open>None\<close> (\<^verbatim>\<open>null\<close>) when no document has the id.
\<close>

definition Project_findById :: "state \<Rightarrow> objectId option \<Rightarrow> error + project option" where
  "Project_findById s i =
     (case i of
        None \<Rightarrow> Inl CastError
      | Some k \<Rightarrow>
          if reachable s then Inr (find (\<lambda>p. p_id p = k) (Project_docs s))
          else Inl StoreError)"

definition Task_findById :: "state \<Rightarrow> objectId option \<Rightarrow> error + task option" where
  "Task_findById s i =
     (case i of
        None \<Rightarrow> Inl CastError
      | Some k \<Rightarrow>
          if reachable s then Inr (find (\<lambda>t. t_id t = k) (Task_docs s))
          else Inl StoreError)"

text \<open>A string field of a request body: absent, or a string. \<^verbatim>\<open>!x\<close> is \<open>\<not> truthy x\<close>.\<close>

definition truthy :: "string option \<Rightarrow> bool" where
  "truthy x = (case x of None \<Rightarrow> False | Some v \<Rightarrow> v \<noteq> [])"

definition js_or :: "string option \<Rightarrow> string option \<Rightarrow> string option" where
  "js_or a b = (if truthy a then a else b)"

text \<open>
  \<^verbatim>\<open>new Project({...}).save()\<close>: the document gets its ObjectId, the schema's
  \<^verbatim>\<open>required\<close> on \<^verbatim>\<open>title\<close> is validated, then the document is inserted.
\<close>

definition Project_save ::
  "state \<Rightarrow> string option \<Rightarrow> string option \<Rightarrow> int option \<Rightarrow> error + project \<times> state" where
  "Project_save s title descr prog =
     (case title of
        None \<Rightarrow> Inl ValidationError
      | Some t \<Rightarrow>
          if t = [] then Inl ValidationError
          else if \<not> reachable s then Inl StoreError
          else
            let p = \<lparr> p_id = fresh s, p_title = t, p_description = descr,
                      p_progress = prog, p_createdAt = date_now s,
                      p_updatedAt = date_now s \<rparr>
            in Inr (p, s\<lparr> Project_docs := Project_docs s @ [p], fresh := Suc (fresh s) \<rparr>))"

text \<open>\<^verbatim>\<open>new Task({ title, projectId }).save()\<close>; \<^verbatim>\<open>completed\<close> defaults to false.\<close>

definition Task_create ::
  "state \<Rightarrow> string option \<Rightarrow> objectId option \<Rightarrow> error + task \<times> state" where
  "Task_create s title pid =
     (case title of
        None \<Rightarrow> Inl ValidationError
      | Some t \<Rightarrow>
          if t = [] then Inl ValidationError
          else if \<not> reachable s then Inl StoreError
          else
            let d = \<lparr> t_id = fresh s, t_title = t, completed = False, projectId = pid,
                      t_createdAt = date_now s, t_updatedAt = date_now s \<rparr>
            in Inr (d, s\<lparr> Task_docs := Task_docs s @ [d], fresh := Suc (fresh s) \<rparr>))"

text \<open>
  \<^verbatim>\<open>task.save()\<close> on a document that was read and changed: \<^verbatim>\<open>updatedAt\<close> is set
  to the clock, and the stored document with this \<^verbatim>\<open>_id\<close> is written.
\<close>

fun store_task :: "task \<Rightarrow> task list \<Rightarrow> task list" where
  "store_task d [] = []"
| "store_task d (x # xs) = (if t_id x = t_id d then d # xs else x # store_task d xs)"

definition Task_save :: "state \<Rightarrow> task \<Rightarrow> error + state" where
  "Task_save s d =
     (if reachable s
      then Inr (s\<lparr> Task_docs := store_task (d\<lparr> t_updatedAt := date_now s \<rparr>) (Task_docs s) \<rparr>)
      else Inl StoreError)"

subsection \<open>Broadcast coordinator\<close>

text \<open>
  \<^verbatim>\<open>
  async function computeStats() {
    const [projects, tasks] = await Promise.all([Project.find(), Task.find()]);
    ...
  }
  async function broadcastStats() {
    const stats = await computeStats();
    const msg = JSON.stringify({ type: "stats", data: stats });
    wss.clients.forEach(c => {
      if (c.readyState === 1) c.send(msg);
    });
  }
  wss.on("connection", async ws => {
    ws.send(JSON.stringify({ type: "info", message: "Connected" }));
    ws.send(JSON.stringify({ type: "stats", data: await computeStats() }));
  });
  \<close>
\<close>

definition computeStats :: "state \<Rightarrow> error + stats" where
  "computeStats s =
     (case Project_find s of
        Inl e \<Rightarrow> Inl e
      | Inr ps \<Rightarrow>
          (case Task_find s of
             Inl e \<Rightarrow> Inl e
           | Inr ts \<Rightarrow> Inr (stats_of ps ts)))"

definition send :: "connection \<Rightarrow> message \<Rightarrow> connection" where
  "send c m =
     c\<lparr> sent := sent c @ [m],
        received := (if intact c then received c @ [m] else received c) \<rparr>"

definition fanout :: "message \<Rightarrow> connection list \<Rightarrow> connection list" where
  "fanout msg cs = map (\<lambda>c. if readyState c = 1 then send c msg else c) cs"

text \<open>The result is the error the call rejects with, if any, and the state it leaves.\<close>

definition broadcastStats :: "state \<Rightarrow> error option \<times> state" where
  "broadcastStats s =
     (let s1 = s\<lparr> broadcasts := Suc (broadcasts s) \<rparr>
      in case computeStats s1 of
           Inl e \<Rightarrow> (Some e, s1)
         | Inr st \<Rightarrow>
             (let msg = Stats st
              in (None, s1\<lparr> clients := fanout msg (clients s1) \<rparr>)))"

text \<open>
  A new connection: the socket server adds the open socket to \<^verbatim>\<open>wss.clients\<close> and
  emits \<^verbatim>\<open>connection\<close>. The handler sends the greeting, is suspended at its
  \<^verbatim>\<open>await\<close>, and sends the snapshot when it is resumed. Other handlers may run while
  it is suspended; \<open>onConnection\<close> is the handler run with nothing in between. The reads
  of the snapshot are taken at the resumption.
\<close>

definition accept :: "nat \<Rightarrow> state \<Rightarrow> state" where
  "accept k s =
     s\<lparr> clients := clients s @
          [\<lparr> cid = k, readyState = 1, sent = [], received = [], intact = True \<rparr>] \<rparr>"

text \<open>
  The \<^verbatim>\<open>close\<close> event of a socket: the socket server, which listens to it on every
  socket it has accepted, deletes the socket from \<^verbatim>\<open>wss.clients\<close>. Nothing in the
  repository listens to it.
\<close>

definition socket_closed :: "nat \<Rightarrow> state \<Rightarrow> state" where
  "socket_closed k s = s\<lparr> clients := filter (\<lambda>c. cid c \<noteq> k) (clients s) \<rparr>"

definition ws_send :: "nat \<Rightarrow> message \<Rightarrow> state \<Rightarrow> state" where
  "ws_send k m s = s\<lparr> clients := map (\<lambda>c. if cid c = k then send c m else c) (clients s) \<rparr>"

definition onConnection_greet :: "nat \<Rightarrow> state \<Rightarrow> state" where
  "onConnection_greet k s = ws_send k (Info ''Connected'') s"

definition onConnection_resume :: "nat \<Rightarrow> state \<Rightarrow> error option \<times> state" where
  "onConnection_resume k s =
     (case computeStats s of
        Inl e \<Rightarrow> (Some e, s)
      | Inr st \<Rightarrow> (None, ws_send k (Stats st) s))"

definition onConnection :: "nat \<Rightarrow> state \<Rightarrow> error option \<times> state" where
  "onConnection k s = onConnection_resume k (onConnection_greet k s)"

subsection \<open>Session gate\<close>

text \<open>
  The library \<^verbatim>\<open>jsonwebtoken\<close> is outside the repository. Its tokens are modelled
  symbolically: a token carries its claims and a signature, and the signature made with
  a key over some claims is a term \<open>HS256 key claims\<close>, equal to another one only when
  key and claims are the same. A cookie that is no such token is \<open>Malformed\<close>. Time is
  the clock in seconds.
\<close>

record identity =
  user_id :: objectId
  user_name :: "string option"
  user_email :: "string option"

record claims = identity +
  iat :: nat
  expires :: nat

datatype signature = HS256 string claims

datatype token = Jwt claims signature | Malformed string

text \<open>\<^verbatim>\<open>expiresIn: "7d"\<close>, in seconds.\<close>

definition seven_days :: nat where
  "seven_days = 7 * 24 * 60 * 60"

definition jwt_sign :: "identity \<Rightarrow> string \<Rightarrow> nat \<Rightarrow> nat \<Rightarrow> token" where
  "jwt_sign payload secret expiresIn now =
     (let c = identity.extend payload \<lparr> iat = now, expires = now + expiresIn \<rparr>
      in Jwt c (HS256 secret c))"

text \<open>
  \<^verbatim>\<open>jwt.verify\<close> throws on a token it cannot parse, then on a signature that is not
  the key's, then on a token whose expiry is not after the clock; else it returns the
  claims.
\<close>

definition jwt_verify :: "token \<Rightarrow> string \<Rightarrow> nat \<Rightarrow> error + claims" where
  "jwt_verify tok secret now =
     (case tok of
        Malformed _ \<Rightarrow> Inl JsonWebTokenError
      | Jwt c sig \<Rightarrow>
          if sig \<noteq> HS256 secret c then Inl JsonWebTokenError
          else if expires c \<le> now then Inl TokenExpiredError
          else Inr c)"

text \<open>
  The environment of the process: the variable \<^verbatim>\<open>JWT_SECRET\<close> and the clock.
  \<^verbatim>\<open>const JWT_SECRET = process.env.JWT_SECRET || "dev-secret-key-change-me";\<close>
\<close>

record env =
  env_JWT_SECRET :: "string option"
  clock :: nat

definition JWT_SECRET :: "env \<Rightarrow> string" where
  "JWT_SECRET e =
     (case env_JWT_SECRET e of
        None \<Rightarrow> ''dev-secret-key-change-me''
      | Some v \<Rightarrow> if v = [] then ''dev-secret-key-change-me'' else v)"

record user =
  u_id :: objectId
  u_name :: string
  u_email :: string

text \<open>
  The token the register route sets as the cookie for the user it has saved. First
  listing (lines 143-144; its login route signs the same):
  \<^verbatim>\<open>jwt.sign({ id: user._id }, JWT_SECRET, { expiresIn: "7d" })\<close>
  Second and third listing (lines 407-411, 659-663):
  \<^verbatim>\<open>jwt.sign({ id: user._id, name: user.name, email: user.email }, JWT_SECRET,
    { expiresIn: "7d" })\<close>
\<close>

definition register_token_1 :: "env \<Rightarrow> user \<Rightarrow> token" where
  "register_token_1 e u =
     jwt_sign \<lparr> user_id = u_id u, user_name = None, user_email = None \<rparr>
       (JWT_SECRET e) seven_days (clock e)"

definition register_token_3 :: "env \<Rightarrow> user \<Rightarrow> token" where
  "register_token_3 e u =
     jwt_sign \<lparr> user_id = u_id u, user_name = Some (u_name u), user_email = Some (u_email u) \<rparr>
       (JWT_SECRET e) seven_days (clock e)"

text \<open>
  A request, as far as the handlers read it: the cookie \<^verbatim>\<open>token\<close>, \<^verbatim>\<open>req.user\<close>
  (with \<^verbatim>\<open>res.locals.user\<close>, which always gets the same value), the fields of the
  body, \<^verbatim>\<open>req.params.id\<close> and the \<^verbatim>\<open>Referrer\<close> header.
\<close>

record request =
  cookie_token :: "token option"
  req_user :: "claims option"
  locals_user :: "claims option"
  body_title :: "string option"
  body_name :: "string option"
  body_description :: "string option"
  body_progress :: "int option"
  params_id :: "objectId option"
  referrer :: "string option"

datatype location = Path string | ProjectPage objectId

text \<open>
  What a handler answers. \<open>Rejected\<close>: the handler's promise rejects and the handler
  has written no response.
\<close>

datatype response =
    Redirect location
  | Render nat string
  | Send nat string
  | Json project
  | Rejected error

datatype step = Next request | Respond response

text \<open>
  \<^verbatim>\<open>
  function authMiddleware(req, res, next) {
    const token = req.cookies ? req.cookies.token : null;
    if (!token) {
      req.user = null; res.locals.user = null;
      return next();
    }
    try {
      const decoded = jwt.verify(token, JWT_SECRET);
      req.user = decoded; res.locals.user = decoded;
    } catch (err) {
      req.user = null; res.locals.user = null;
    }
    next();
  }
  function requireAuth(req, res, next) {
    if (!req.user) { return res.redirect("/login"); }
    next();
  }
  \<close>
  The empty string is a cookie that \<^verbatim>\<open>!token\<close> takes as missing.
\<close>

definition authMiddleware :: "env \<Rightarrow> request \<Rightarrow> step" where
  "authMiddleware e req =
     (case cookie_token req of
        None \<Rightarrow> Next (req\<lparr> req_user := None, locals_user := None \<rparr>)
      | Some token \<Rightarrow>
          if token = Malformed [] then Next (req\<lparr> req_user := None, locals_user := None \<rparr>)
          else
            (case jwt_verify token (JWT_SECRET e) (clock e) of
               Inr decoded \<Rightarrow> Next (req\<lparr> req_user := Some decoded, locals_user := Some decoded \<rparr>)
             | Inl err \<Rightarrow> Next (req\<lparr> req_user := None, locals_user := None \<rparr>)))"

definition requireAuth :: "request \<Rightarrow> step" where
  "requireAuth req =
     (if req_user req = None then Respond (Redirect (Path ''/login'')) else Next req)"

subsection \<open>Routes\<close>

text \<open>The error handler that \<^verbatim>\<open>next(err)\<close> reaches: \<^verbatim>\<open>res.status(500).render("error", ...)\<close>.\<close>

definition errorHandler :: "error \<Rightarrow> response" where
  "errorHandler err = Render 500 ''error''"

text \<open>
  Third listing, lines 754-777:
  \<^verbatim>\<open>
  app.post("/projects", requireAuth, async (req, res, next) => {
    try {
      const { name, title, description } = req.body;
      const projectTitle = title || name;
      if (!projectTitle) {
        return res.status(400).render("new-project", { error: "Project name is required." });
      }
      const project = new Project({ title: projectTitle, description, progress: 0 });
      await project.save();
      await broadcastStats();
      res.redirect("/projects");
    } catch (err) { next(err); }
  });
  \<close>
\<close>

definition post_projects :: "state \<Rightarrow> request \<Rightarrow> response \<times> state" where
  "post_projects s req =
     (let projectTitle = js_or (body_title req) (body_name req)
      in if \<not> truthy projectTitle then (Render 400 ''new-project'', s)
         else
           (case Project_save s projectTitle (body_description req) (Some 0) of
              Inl err \<Rightarrow> (errorHandler err, s)
            | Inr (project, s1) \<Rightarrow>
                (case broadcastStats s1 of
                   (Some err, s2) \<Rightarrow> (errorHandler err, s2)
                 | (None, s2) \<Rightarrow> (Redirect (Path ''/projects''), s2))))"

text \<open>
  Third listing, lines 806-833:
  \<^verbatim>\<open>
  app.post("/projects/:id/tasks", requireAuth, async (req, res, next) => {
    try {
      const { title } = req.body;
      if (!title) {
        return res.status(400).render("error", { error: new Error("Task title is required") });
      }
      const project = await Project.findById(req.params.id);
      if (!project) {
        return res.status(404).render("error", { error: new Error("Project not found") });
      }
      const task = new Task({ title, projectId: project._id });
      await task.save();
      await broadcastStats();
      res.redirect(`/projects/${project._id}`);
    } catch (err) { next(err); }
  });
  \<close>
\<close>

definition post_projects_id_tasks :: "state \<Rightarrow> request \<Rightarrow> response \<times> state" where
  "post_projects_id_tasks s req =
     (let title = body_title req
      in if \<not> truthy title then (Render 400 ''error'', s)
         else
           (case Project_findById s (params_id req) of
              Inl err \<Rightarrow> (errorHandler err, s)
            | Inr None \<Rightarrow> (Render 404 ''error'', s)
            | Inr (Some project) \<Rightarrow>
                (case Task_create s title (Some (p_id project)) of
                   Inl err \<Rightarrow> (errorHandler err, s)
                 | Inr (task, s1) \<Rightarrow>
                     (case broadcastStats s1 of
                        (Some err, s2) \<Rightarrow> (errorHandler err, s2)
                      | (None, s2) \<Rightarrow> (Redirect (ProjectPage (p_id project)), s2)))))"

text \<open>
  Third listing, lines 836-853:
  \<^verbatim>\<open>
  app.post("/tasks/:id/toggle", requireAuth, async (req, res, next) => {
    try {
      const task = await Task.findById(req.params.id);
      if (!task) {
        return res.status(404).render("error", { error: new Error("Task not found") });
      }
      task.completed = !task.completed;
      await task.save();
      await broadcastStats();
      res.redirect(req.get("Referrer") || "/tasks");
    } catch (err) { next(err); }
  });
  \<close>
\<close>

definition post_tasks_id_toggle :: "state \<Rightarrow> request \<Rightarrow> response \<times> state" where
  "post_tasks_id_toggle s req =
     (case Task_findById s (params_id req) of
        Inl err \<Rightarrow> (errorHandler err, s)
      | Inr None \<Rightarrow> (Render 404 ''error'', s)
      | Inr (Some task) \<Rightarrow>
          (case Task_save s (task\<lparr> completed := \<not> completed task \<rparr>) of
             Inl err \<Rightarrow> (errorHandler err, s)
           | Inr s1 \<Rightarrow>
               (case broadcastStats s1 of
                  (Some err, s2) \<Rightarrow> (errorHandler err, s2)
                | (None, s2) \<Rightarrow>
                    (Redirect (Path (case js_or (referrer req) (Some ''/tasks'') of
                                       Some r \<Rightarrow> r
                                     | None \<Rightarrow> ''/tasks'')), s2))))"

text \<open>
  First listing, lines 225-231 (no \<^verbatim>\<open>try\<close>, no check of the task):
  \<^verbatim>\<open>
  app.post("/tasks/:id/toggle", requireAuth, async (req, res) => {
    const task = await Task.findById(req.params.id);
    task.completed = !task.completed;
    await task.save();
    await broadcastStats();
    res.redirect("back");
  });
  \<close>
  Reading \<^verbatim>\<open>completed\<close> of \<^verbatim>\<open>null\<close> throws a TypeError.
\<close>

definition post_tasks_id_toggle_1 :: "state \<Rightarrow> request \<Rightarrow> response \<times> state" where
  "post_tasks_id_toggle_1 s req =
     (case Task_findById s (params_id req) of
        Inl err \<Rightarrow> (Rejected err, s)
      | Inr None \<Rightarrow> (Rejected TypeError, s)
      | Inr (Some task) \<Rightarrow>
          (case Task_save s (task\<lparr> completed := \<not> completed task \<rparr>) of
             Inl err \<Rightarrow> (Rejected err, s)
           | Inr s1 \<Rightarrow>
               (case broadcastStats s1 of
                  (Some err, s2) \<Rightarrow> (Rejected err, s2)
                | (None, s2) \<Rightarrow> (Redirect (Path ''back''), s2))))"

text \<open>
  The JSON API router (\<^verbatim>\<open>routes/api/projects.js\<close>), mounted by
  \<^verbatim>\<open>app.use("/api/projects", requireAuth, apiProjectsRouter)\<close>:
  \<^verbatim>\<open>
  router.post("/", async (req, res) => {
    const p = new Project(req.body);
    await p.save();
    res.json(p);
  });
  \<close>
  The schema gives \<^verbatim>\<open>progress\<close> its default 0 when the body has none.
\<close>

definition api_post_projects :: "state \<Rightarrow> request \<Rightarrow> response \<times> state" where
  "api_post_projects s req =
     (case Project_save s (body_title req) (body_description req)
             (case body_progress req of None \<Rightarrow> Some 0 | Some n \<Rightarrow> Some n) of
        Inl err \<Rightarrow> (Rejected err, s)
      | Inr (p, s1) \<Rightarrow> (Json p, s1))"

text \<open>
  The application of the third listing on the routes that matter here: every request
  passes \<^verbatim>\<open>authMiddleware\<close>; \<^verbatim>\<open>/health\<close> answers next; the mutating routes are
  behind \<^verbatim>\<open>requireAuth\<close>. (In the first and the second listing too,
  \<^verbatim>\<open>app.get("/health", (req, res) => { res.status(200).send("OK"); })\<close> stands right
  after \<^verbatim>\<open>app.use(authMiddleware)\<close> and the middleware that serves static files.)
\<close>

datatype route =
    GET_health
  | POST_projects
  | POST_projects_id_tasks
  | POST_tasks_id_toggle
  | POST_api_projects

definition guarded ::
  "(state \<Rightarrow> request \<Rightarrow> response \<times> state) \<Rightarrow> state \<Rightarrow> request \<Rightarrow> response \<times> state" where
  "guarded handler s req =
     (case requireAuth req of
        Respond r \<Rightarrow> (r, s)
      | Next req' \<Rightarrow> handler s req')"

definition app :: "env \<Rightarrow> state \<Rightarrow> route \<Rightarrow> request \<Rightarrow> response \<times> state" where
  "app e s r req =
     (case authMiddleware e req of
        Respond resp \<Rightarrow> (resp, s)
      | Next req1 \<Rightarrow>
          (case r of
             GET_health \<Rightarrow> (Send 200 ''OK'', s)
           | POST_projects \<Rightarrow> guarded post_projects s req1
           | POST_projects_id_tasks \<Rightarrow> guarded post_projects_id_tasks s req1
           | POST_tasks_id_toggle \<Rightarrow> guarded post_tasks_id_toggle s req1
           | POST_api_projects \<Rightarrow> guarded api_post_projects s req1))"

subsection \<open>Sample inputs\<close>

text \<open>Concrete inputs, at which the theorems below are instantiated.\<close>

definition env0 :: env where
  "env0 = \<lparr> env_JWT_SECRET = None, clock = 1700000000 \<rparr>"

definition alice :: user where
  "alice = \<lparr> u_id = 1, u_name = ''Alice'', u_email = ''alice@example.org'' \<rparr>"

definition anonymous :: request where
  "anonymous =
     \<lparr> cookie_token = None, req_user = None, locals_user = None, body_title = None,
       body_name = None, body_description = None, body_progress = None,
       params_id = None, referrer = None \<rparr>"

definition task5 :: task where
  "task5 =
     \<lparr> t_id = 5, t_title = ''t1'', completed = False, projectId = Some 2,
       t_createdAt = 1699999000000, t_updatedAt = 1699999000000 \<rparr>"

definition project2 :: project where
  "project2 =
     \<lparr> p_id = 2, p_title = ''A'', p_description = None, p_progress = Some 0,
       p_createdAt = 1699998000000, p_updatedAt = 1699998000000 \<rparr>"

definition store0 :: state where
  "store0 =
     \<lparr> Project_docs = [], Task_docs = [], reachable = True, fresh = 0, clients = [],
       broadcasts = 0, date_now = 1700000000000 \<rparr>"

definition store1 :: state where
  "store1 = store0\<lparr> Project_docs := [project2], Task_docs := [task5], fresh := 6 \<rparr>"

definition viewers :: "connection list" where
  "viewers =
     [\<lparr> cid = 1, readyState = 1, sent = [], received = [], intact = True \<rparr>,
      \<lparr> cid = 2, readyState = 2, sent = [], received = [], intact = True \<rparr>,
      \<lparr> cid = 3, readyState = 1, sent = [Info ''Connected''],
        received = [Info ''Connected''], intact = True \<rparr>]"

definition store2 :: state where
  "store2 = store1\<lparr> clients := viewers \<rparr>"

text \<open>
  The same with two more connections: 4 is open and its transport is gone, so that a
  send on it fails; 5 is open and sound.
\<close>

definition store3 :: state where
  "store3 =
     store1\<lparr> clients := viewers @
       [\<lparr> cid = 4, readyState = 1, sent = [Info ''Connected''],
          received = [Info ''Connected''], intact = False \<rparr>,
        \<lparr> cid = 5, readyState = 1, sent = [], received = [], intact = True \<rparr>] \<rparr>"

definition stats1 :: stats where
  "stats1 =
     \<lparr> totalProjects = 1, totalTasks = 1, overallCompletion = 0,
       projects = [\<lparr> s_id = 2, s_name = ''A'', s_description = None, s_progress = 0 \<rparr>] \<rparr>"

definition stats_done :: stats where
  "stats_done = stats1\<lparr> overallCompletion := 100 \<rparr>"

text \<open>
  A run in which another handler runs while the connection handler is suspended:
  connection 7 is accepted and greeted; a toggle of task 5 is handled, with its
  broadcast; then the connection handler is resumed.
\<close>

definition greeted :: state where
  "greeted = onConnection_greet 7 (accept 7 store1)"

definition toggled_meanwhile :: state where
  "toggled_meanwhile = snd (post_tasks_id_toggle greeted (anonymous\<lparr> params_id := Some 5 \<rparr>))"

definition resumed :: state where
  "resumed = snd (onConnection_resume 7 toggled_meanwhile)"

text \<open>Alice's requests, with the cookie that the register route of each listing sets.\<close>

definition alice_request_3 :: request where
  "alice_request_3 = anonymous\<lparr> cookie_token := Some (register_token_3 env0 alice) \<rparr>"

definition alice_request_1 :: request where
  "alice_request_1 = anonymous\<lparr> cookie_token := Some (register_token_1 env0 alice) \<rparr>"

definition a_minute_later :: env where
  "a_minute_later = env0\<lparr> clock := clock env0 + 60 \<rparr>"

definition project6 :: project where
  "project6 =
     \<lparr> p_id = 6, p_title = ''B'', p_description = None, p_progress = Some 0,
       p_createdAt = 1700000000000, p_updatedAt = 1700000000000 \<rparr>"

text \<open>Forty tasks, of which the first twenty-three are completed.\<close>

definition tasks40 :: "task list" where
  "tasks40 =
     map (\<lambda>i. \<lparr> t_id = i, t_title = ''t'', completed = (i < 23), projectId = None,
                 t_createdAt = 1699999000000, t_updatedAt = 1699999000000 \<rparr>)
       [0 ..< 40]"

definition store40 :: state where
  "store40 = store0\<lparr> Task_docs := tasks40, fresh := 40 \<rparr>"

section \<open>Properties\<close>

subsection \<open>Health probe\<close>

text \<open>
  C8. Every request to the health probe is answered with status 200 and the body
  \<^verbatim>\<open>OK\<close>, whatever cookie it carries (none, a malformed one, an expired or a valid
  token) and whatever the state of the store, and the state is left as it was: the route
  stands before every \<^verbatim>\<open>requireAuth\<close>, and \<^verbatim>\<open>authMiddleware\<close> always goes on.
\<close>

theorem health_always_200: "app e s GET_health req = (Send 200 ''OK'', s)"
  by (simp add: app_def authMiddleware_def split: option.split sum.split)

subsection \<open>Session gate\<close>

text \<open>
  C7. \<^verbatim>\<open>authMiddleware\<close> never answers and never throws: for every request it goes on
  to the next handler, with \<^verbatim>\<open>req.user\<close> and \<^verbatim>\<open>res.locals.user\<close> set to the same
  value. A missing cookie, a malformed token and an expired token each give
  \<^verbatim>\<open>req.user = null\<close>. Only \<^verbatim>\<open>requireAuth\<close> rejects: it redirects to
  \<^verbatim>\<open>/login\<close> when \<^verbatim>\<open>req.user\<close> is null and goes on otherwise, so that a request with
  no identity gets the redirect from every mutating route and the state is untouched.
\<close>

theorem authMiddleware_never_rejects:
  "(\<exists>u. authMiddleware e req = Next (req\<lparr> req_user := u, locals_user := u \<rparr>)) \<and>
   (cookie_token req = None \<longrightarrow>
      authMiddleware e req = Next (req\<lparr> req_user := None, locals_user := None \<rparr>)) \<and>
   (\<forall>x. cookie_token req = Some (Malformed x) \<longrightarrow>
      authMiddleware e req = Next (req\<lparr> req_user := None, locals_user := None \<rparr>)) \<and>
   (\<forall>c sg. cookie_token req = Some (Jwt c sg) \<and> expires c \<le> clock e \<longrightarrow>
      authMiddleware e req = Next (req\<lparr> req_user := None, locals_user := None \<rparr>)) \<and>
   (req_user q = None \<longrightarrow> requireAuth q = Respond (Redirect (Path ''/login''))) \<and>
   (req_user q \<noteq> None \<longrightarrow> requireAuth q = Next q) \<and>
   (r \<noteq> GET_health \<and> authMiddleware e req = Next q \<and> req_user q = None \<longrightarrow>
      app e s r req = (Redirect (Path ''/login''), s))"
  by (auto simp: authMiddleware_def jwt_verify_def requireAuth_def app_def guarded_def
           split: option.split sum.split route.split)

theorem authMiddleware_never_rejects_witness:
  "authMiddleware env0 anonymous = Next anonymous \<and>
   authMiddleware env0 (anonymous\<lparr> cookie_token := Some (Malformed ''x.y.z'') \<rparr>) =
     Next (anonymous\<lparr> cookie_token := Some (Malformed ''x.y.z'') \<rparr>) \<and>
   authMiddleware (env0\<lparr> clock := clock env0 + seven_days \<rparr>)
       (anonymous\<lparr> cookie_token := Some (register_token_3 env0 alice) \<rparr>) =
     Next (anonymous\<lparr> cookie_token := Some (register_token_3 env0 alice) \<rparr>) \<and>
   requireAuth anonymous = Respond (Redirect (Path ''/login'')) \<and>
   app env0 store1 POST_tasks_id_toggle (anonymous\<lparr> params_id := Some 5 \<rparr>) =
     (Redirect (Path ''/login''), store1)"
proof -
  let ?late = "env0\<lparr> clock := clock env0 + seven_days \<rparr>"
  let ?bad = "anonymous\<lparr> cookie_token := Some (Malformed ''x.y.z'') \<rparr>"
  let ?old = "anonymous\<lparr> cookie_token := Some (register_token_3 env0 alice) \<rparr>"
  let ?tog = "anonymous\<lparr> params_id := Some 5 \<rparr>"
  have none: "cookie_token anonymous = None" "req_user anonymous = None"
    by (simp_all add: anonymous_def)
  have a: "authMiddleware env0 anonymous = Next anonymous"
    using authMiddleware_never_rejects [of env0 anonymous] none
    by (simp add: anonymous_def)
  have b: "authMiddleware env0 ?bad = Next ?bad"
    using authMiddleware_never_rejects [of env0 ?bad]
    by (simp add: anonymous_def)
  have c: "authMiddleware ?late ?old = Next ?old"
    using authMiddleware_never_rejects [of ?late ?old]
    by (simp add: anonymous_def register_token_3_def jwt_sign_def identity.extend_def Let_def)
  have d: "requireAuth anonymous = Respond (Redirect (Path ''/login''))"
    using authMiddleware_never_rejects [of _ _ anonymous] none by simp
  have "authMiddleware env0 ?tog = Next ?tog"
    using authMiddleware_never_rejects [of env0 ?tog] by (simp add: anonymous_def)
  moreover have "req_user ?tog = None" by (simp add: anonymous_def)
  ultimately have e: "app env0 store1 POST_tasks_id_toggle ?tog = (Redirect (Path ''/login''), store1)"
    using authMiddleware_never_rejects [of env0 ?tog ?tog POST_tasks_id_toggle store1] by simp
  from a b c d e show ?thesis by simp
qed

subsection \<open>Facts about the store and the broadcast\<close>

lemma broadcastStats_store [simp]:
  "Task_docs (snd (broadcastStats s)) = Task_docs s"
  "Project_docs (snd (broadcastStats s)) = Project_docs s"
  "reachable (snd (broadcastStats s)) = reachable s"
  "fresh (snd (broadcastStats s)) = fresh s"
  "date_now (snd (broadcastStats s)) = date_now s"
  by (simp_all add: broadcastStats_def Let_def split: sum.split)

lemma broadcastStats_reachable:
  "reachable s \<Longrightarrow>
   broadcastStats s =
     (None, s\<lparr> broadcasts := Suc (broadcasts s),
               clients := fanout (Stats (stats_of (Project_docs s) (Task_docs s))) (clients s) \<rparr>)"
  by (simp add: broadcastStats_def computeStats_def Project_find_def Task_find_def Let_def)

lemma broadcastStats_unreachable:
  "\<not> reachable s \<Longrightarrow>
   broadcastStats s = (Some StoreError, s\<lparr> broadcasts := Suc (broadcasts s) \<rparr>)"
  by (simp add: broadcastStats_def computeStats_def Project_find_def Task_find_def Let_def)






lemma Task_findById_date_now [simp]:
  "Task_findById (s\<lparr> date_now := t \<rparr>) i = Task_findById s i"
  by (cases i) (simp_all add: Task_findById_def)




subsection \<open>Task-completion toggle\<close>




subsection \<open>Failed mutations\<close>

lemma errorHandler_500 [simp]: "errorHandler err = Render 500 ''error''"
  by (simp add: errorHandler_def)

lemma post_projects_failures:
  "fst (post_projects s req) = Render st v \<Longrightarrow> snd (post_projects s req) = s"
  by (cases "reachable s")
     (auto simp: post_projects_def Project_save_def Let_def broadcastStats_reachable
           split: option.splits if_splits)

lemma post_projects_id_tasks_failures:
  "fst (post_projects_id_tasks s req) = Render st v \<Longrightarrow> snd (post_projects_id_tasks s req) = s"
  by (cases "reachable s")
     (auto simp: post_projects_id_tasks_def Project_findById_def Task_create_def Let_def
                 broadcastStats_reachable
           split: option.splits if_splits)

lemma post_tasks_id_toggle_failures:
  "fst (post_tasks_id_toggle s req) = Render st v \<Longrightarrow> snd (post_tasks_id_toggle s req) = s"
  by (cases "reachable s")
     (auto simp: post_tasks_id_toggle_def Task_findById_def Task_save_def Let_def
                 broadcastStats_reachable
           split: option.splits if_splits)

text \<open>
  The two handlers that have no check of their own: with no \<^verbatim>\<open>title\<close> the API
  route's \<^verbatim>\<open>save\<close> rejects, and on a task that does not exist the toggle of the
  first listing throws; the handler's promise rejects, and nothing is written or sent.
\<close>

lemma unchecked_handlers_reject:
  "(\<not> truthy (body_title req) \<longrightarrow>
      api_post_projects s req = (Rejected ValidationError, s)) \<and>
   (Task_findById s (params_id req) = Inr None \<longrightarrow>
      post_tasks_id_toggle_1 s req = (Rejected TypeError, s))"
  by (auto simp: api_post_projects_def Project_save_def post_tasks_id_toggle_1_def truthy_def
        split: option.splits)

text \<open>
  In the third listing, a mutating request that fails validation or finds nothing is
  answered at once and changes nothing. Creating a project with neither \<^verbatim>\<open>title\<close> nor
  \<^verbatim>\<open>name\<close> renders \<^verbatim>\<open>new-project\<close> with status 400; creating a task with no
  \<^verbatim>\<open>title\<close> renders \<^verbatim>\<open>error\<close> with status 400; creating a task under a project
  that does not exist, and toggling a task that does not exist, render \<^verbatim>\<open>error\<close> with
  status 404. In each case the state after the request is the state before it: no
  document is written, \<^verbatim>\<open>broadcastStats\<close> is not called, no socket is sent anything.
  Conversely, whenever one of the three handlers answers with status 400 or 404, the
  state is unchanged.
\<close>

lemma failed_mutation_changes_nothing:
  "(\<not> truthy (js_or (body_title req) (body_name req)) \<longrightarrow>
      post_projects s req = (Render 400 ''new-project'', s)) \<and>
   (\<not> truthy (body_title req) \<longrightarrow>
      post_projects_id_tasks s req = (Render 400 ''error'', s)) \<and>
   (truthy (body_title req) \<and> Project_findById s (params_id req) = Inr None \<longrightarrow>
      post_projects_id_tasks s req = (Render 404 ''error'', s)) \<and>
   (Task_findById s (params_id req) = Inr None \<longrightarrow>
      post_tasks_id_toggle s req = (Render 404 ''error'', s)) \<and>
   (h = post_projects \<or> h = post_projects_id_tasks \<or> h = post_tasks_id_toggle \<longrightarrow>
      fst (h s req) = Render st v \<and> (st = 400 \<or> st = 404) \<longrightarrow>
      snd (h s req) = s \<and> broadcasts (snd (h s req)) = broadcasts s)"
proof (intro conjI impI)
  assume "h = post_projects \<or> h = post_projects_id_tasks \<or> h = post_tasks_id_toggle"
    and "fst (h s req) = Render st v \<and> (st = 400 \<or> st = 404)"
  then show "snd (h s req) = s"
    using post_projects_failures post_projects_id_tasks_failures post_tasks_id_toggle_failures
    by blast
  then show "broadcasts (snd (h s req)) = broadcasts s" by simp
qed (simp_all add: post_projects_def post_projects_id_tasks_def post_tasks_id_toggle_def Let_def)

lemma failed_mutation_changes_nothing_at_store1:
  "post_projects store1 anonymous = (Render 400 ''new-project'', store1) \<and>
   post_projects_id_tasks store1 (anonymous\<lparr> params_id := Some 2 \<rparr>) =
     (Render 400 ''error'', store1) \<and>
   post_projects_id_tasks store1 (anonymous\<lparr> body_title := Some ''t2'', params_id := Some 9 \<rparr>) =
     (Render 404 ''error'', store1) \<and>
   post_tasks_id_toggle store1 (anonymous\<lparr> params_id := Some 9 \<rparr>) =
     (Render 404 ''error'', store1) \<and>
   broadcasts (snd (post_tasks_id_toggle store1 (anonymous\<lparr> params_id := Some 9 \<rparr>))) = 0"
proof -
  let ?r2 = "anonymous\<lparr> params_id := Some 2 \<rparr>"
  let ?r3 = "anonymous\<lparr> body_title := Some ''t2'', params_id := Some 9 \<rparr>"
  let ?r4 = "anonymous\<lparr> params_id := Some 9 \<rparr>"
  have a: "post_projects store1 anonymous = (Render 400 ''new-project'', store1)"
    using failed_mutation_changes_nothing [of anonymous store1]
    by (simp add: anonymous_def js_or_def truthy_def)
  have b: "post_projects_id_tasks store1 ?r2 = (Render 400 ''error'', store1)"
    using failed_mutation_changes_nothing [of ?r2 store1]
    by (simp add: anonymous_def truthy_def)
  have "Project_findById store1 (params_id ?r3) = Inr None"
    by (simp add: Project_findById_def store1_def store0_def project2_def anonymous_def)
  then have c: "post_projects_id_tasks store1 ?r3 = (Render 404 ''error'', store1)"
    using failed_mutation_changes_nothing [of ?r3 store1]
    by (simp add: anonymous_def truthy_def)
  have "Task_findById store1 (params_id ?r4) = Inr None"
    by (simp add: Task_findById_def store1_def store0_def task5_def anonymous_def)
  then have d: "post_tasks_id_toggle store1 ?r4 = (Render 404 ''error'', store1)"
    using failed_mutation_changes_nothing [of ?r4 store1] by simp
  have e: "broadcasts (snd (post_tasks_id_toggle store1 ?r4)) = 0"
    using failed_mutation_changes_nothing [of ?r4 store1 post_tasks_id_toggle 404 "''error''"] d
    by (simp add: store1_def store0_def)
  from a b c d e show ?thesis by simp
qed

subsection \<open>Fan-out\<close>

lemma fanout_length [simp]: "length (fanout m cs) = length cs"
  by (simp add: fanout_def)

lemma fanout_nth:
  "i < length cs \<Longrightarrow>
   fanout m cs ! i = (if readyState (cs ! i) = 1 then send (cs ! i) m else cs ! i)"
  by (simp add: fanout_def)

lemma fanout_intact [simp]: "map intact (fanout m cs) = map intact cs"
  by (simp add: fanout_def send_def)

lemma fanout_cid [simp]: "map cid (fanout m cs) = map cid cs"
  by (simp add: fanout_def send_def)

lemma fanout_readyState [simp]: "map readyState (fanout m cs) = map readyState cs"
  by (simp add: fanout_def send_def)

lemma fanout_ready_mem:
  "c \<in> set cs \<Longrightarrow> readyState c = 1 \<Longrightarrow> send c m \<in> set (fanout m cs)"
  by (force simp: fanout_def)

lemma completion_none_done [simp]: "completion 0 n = 0"
proof -
  have "\<lfloor>(1::rat) / 2\<rfloor> = 0" by code_simp
  then show ?thesis
    by (simp add: completion_def js_div_def js_mul_def fl_def Math_round_def)
qed

lemma stats_of_store1 [simp]: "stats_of [project2] [task5] = stats1"
  by (simp add: stats_of_def stats1_def project2_def task5_def summarise_def progress_or_0_def)

text \<open>
  C10. In one broadcast (the store answering), every connection whose \<^verbatim>\<open>readyState\<close>
  is 1 is sent one and the same message: the \<^verbatim>\<open>stats\<close> message of the snapshot, made
  once from the two collections before the loop over the connections (and the message
  is what the client receives, when the transport carries it). It depends on no
  connection and on no identity: two runs from states with the same collections send
  the same message to every ready connection, whatever connections are registered.
\<close>

theorem broadcast_identical_message:
  assumes "reachable s"
  shows "fst (broadcastStats s) = None \<and>
     clients (snd (broadcastStats s)) =
       map (\<lambda>c. if readyState c = 1
                 then c\<lparr> sent := sent c @ [Stats (stats_of (Project_docs s) (Task_docs s))],
                        received :=
                          (if intact c
                           then received c @ [Stats (stats_of (Project_docs s) (Task_docs s))]
                           else received c) \<rparr>
                 else c) (clients s) \<and>
     (\<forall>t::state. reachable t \<and> Project_docs t = Project_docs s \<and> Task_docs t = Task_docs s \<longrightarrow>
        (\<forall>c \<in> set (clients s). \<forall>c' \<in> set (clients t).
           readyState c = 1 \<and> readyState c' = 1 \<longrightarrow>
           (\<exists>m. send c m \<in> set (clients (snd (broadcastStats s))) \<and>
                send c' m \<in> set (clients (snd (broadcastStats t))))))"
proof (intro conjI allI impI ballI)
  show "fst (broadcastStats s) = None"
    using assms by (simp add: broadcastStats_reachable)
  show "clients (snd (broadcastStats s)) =
       map (\<lambda>c. if readyState c = 1
                 then c\<lparr> sent := sent c @ [Stats (stats_of (Project_docs s) (Task_docs s))],
                        received :=
                          (if intact c
                           then received c @ [Stats (stats_of (Project_docs s) (Task_docs s))]
                           else received c) \<rparr>
                 else c) (clients s)"
    using assms by (simp add: broadcastStats_reachable fanout_def send_def)
next
  fix t :: state and c c'
  assume t: "reachable t \<and> Project_docs t = Project_docs s \<and> Task_docs t = Task_docs s"
    and c: "c \<in> set (clients s)" and c': "c' \<in> set (clients t)"
    and ready: "readyState c = 1 \<and> readyState c' = 1"
  let ?m = "Stats (stats_of (Project_docs s) (Task_docs s))"
  have "send c ?m \<in> set (clients (snd (broadcastStats s)))"
    using assms c ready by (simp add: broadcastStats_reachable fanout_ready_mem)
  moreover have "send c' ?m \<in> set (clients (snd (broadcastStats t)))"
    using t c' ready by (simp add: broadcastStats_reachable fanout_ready_mem)
  ultimately show "\<exists>m. send c m \<in> set (clients (snd (broadcastStats s))) \<and>
                send c' m \<in> set (clients (snd (broadcastStats t)))"
    by blast
qed

theorem broadcast_identical_message_witness:
  "reachable store2 \<and>
   map sent (clients (snd (broadcastStats store2))) =
     [[Stats stats1], [], [Info ''Connected'', Stats stats1]]"
proof -
  have r: "reachable store2"
    by (simp add: store2_def store1_def store0_def)
  have "Project_docs store2 = [project2]" "Task_docs store2 = [task5]" "clients store2 = viewers"
    by (simp_all add: store2_def store1_def store0_def)
  with broadcast_identical_message [OF r] r show ?thesis
    by (simp add: viewers_def)
qed

subsection \<open>The registry during a broadcast\<close>

lemma socket_closed_store [simp]:
  "reachable (socket_closed k s) = reachable s"
  "Project_docs (socket_closed k s) = Project_docs s"
  "Task_docs (socket_closed k s) = Task_docs s"
  by (simp_all add: socket_closed_def)

lemma socket_closed_gone: "k \<notin> cid ` set (clients (socket_closed k s))"
  by (auto simp: socket_closed_def)

text \<open>
  C3, as stated, asks that a connection that is not ready, or to which a send fails, be
  removed from the registry. \<^verbatim>\<open>broadcastStats\<close> removes nothing. Of the connections
  1 to 5, 2 is closing and 4 is open with its transport gone. After a broadcast all five
  are registered as before: 2 was skipped; the send on 4 was made and failed, so that 4
  has not received the message; 5, after them, has received it.
\<close>

theorem broadcast_removes_no_connection:
  "map readyState (clients store3) = [1, 2, 1, 1, 1] \<and>
   map intact (clients store3) = [True, True, True, False, True] \<and>
   fst (broadcastStats store3) = None \<and>
   map cid (clients (snd (broadcastStats store3))) = [1, 2, 3, 4, 5] \<and>
   map readyState (clients (snd (broadcastStats store3))) = [1, 2, 1, 1, 1] \<and>
   map sent (clients (snd (broadcastStats store3))) =
     [[Stats stats1], [], [Info ''Connected'', Stats stats1],
      [Info ''Connected'', Stats stats1], [Stats stats1]] \<and>
   map received (clients (snd (broadcastStats store3))) =
     [[Stats stats1], [], [Info ''Connected'', Stats stats1],
      [Info ''Connected''], [Stats stats1]]"
proof -
  have r: "reachable store3"
    by (simp add: store3_def store1_def store0_def)
  have "Project_docs store3 = [project2]" "Task_docs store3 = [task5]"
    by (simp_all add: store3_def store1_def store0_def)
  then show ?thesis
    by (simp add: broadcastStats_reachable [OF r] fanout_def)
       (simp add: store3_def viewers_def send_def)
qed

text \<open>
  C3, amended. During a broadcast (the store answering), delivery to each registered
  connection is independent and best-effort. A connection that is not ready is skipped
  and left as it is. A send that fails (on an open connection whose transport is gone)
  loses the message and returns as any other. Neither stops the delivery to the
  remaining connections: every ready connection is handed the message, wherever it
  stands among the others, and receives it when its transport is sound. Neither raises
  an error to the caller. The broadcast removes no connection from the registry: it
  changes neither which connections are registered, nor their order, nor their
  \<^verbatim>\<open>readyState\<close>. A connection leaves the registry on the \<^verbatim>\<open>close\<close> event of its
  socket, by the socket server's doing, and no broadcast after that sends to it.
\<close>

theorem broadcast_is_best_effort:
  assumes "reachable s"
  shows "fst (broadcastStats s) = None \<and>
     map cid (clients (snd (broadcastStats s))) = map cid (clients s) \<and>
     map readyState (clients (snd (broadcastStats s))) = map readyState (clients s) \<and>
     map intact (clients (snd (broadcastStats s))) = map intact (clients s) \<and>
     (\<forall>i < length (clients s).
        (readyState (clients s ! i) \<noteq> 1 \<longrightarrow>
           clients (snd (broadcastStats s)) ! i = clients s ! i) \<and>
        (readyState (clients s ! i) = 1 \<longrightarrow>
           sent (clients (snd (broadcastStats s)) ! i) =
             sent (clients s ! i) @ [Stats (stats_of (Project_docs s) (Task_docs s))]) \<and>
        (readyState (clients s ! i) = 1 \<and> intact (clients s ! i) \<longrightarrow>
           received (clients (snd (broadcastStats s)) ! i) =
             received (clients s ! i) @ [Stats (stats_of (Project_docs s) (Task_docs s))]) \<and>
        (readyState (clients s ! i) = 1 \<and> \<not> intact (clients s ! i) \<longrightarrow>
           received (clients (snd (broadcastStats s)) ! i) = received (clients s ! i))) \<and>
     (\<forall>k. fst (broadcastStats (socket_closed k s)) = None \<and>
          k \<notin> cid ` set (clients (socket_closed k s)) \<and>
          k \<notin> cid ` set (clients (snd (broadcastStats (socket_closed k s)))))"
proof (intro conjI allI)
  fix k
  have r: "reachable (socket_closed k s)" using assms by simp
  show "fst (broadcastStats (socket_closed k s)) = None"
    by (simp add: broadcastStats_reachable [OF r])
  show gone: "k \<notin> cid ` set (clients (socket_closed k s))"
    by (rule socket_closed_gone)
  have "map cid (clients (snd (broadcastStats (socket_closed k s)))) =
      map cid (clients (socket_closed k s))"
    by (simp add: broadcastStats_reachable [OF r])
  then have "cid ` set (clients (snd (broadcastStats (socket_closed k s)))) =
      cid ` set (clients (socket_closed k s))"
    by (metis set_map)
  with gone show "k \<notin> cid ` set (clients (snd (broadcastStats (socket_closed k s))))"
    by simp
qed (use assms in \<open>simp_all add: broadcastStats_reachable fanout_nth send_def\<close>)

theorem broadcast_is_best_effort_witness:
  "reachable store3 \<and>
   clients (snd (broadcastStats store3)) ! 1 = clients store3 ! 1 \<and>
   readyState (clients store3 ! 1) = 2 \<and>
   received (clients (snd (broadcastStats store3)) ! 3) = [Info ''Connected''] \<and>
   sent (clients (snd (broadcastStats store3)) ! 3) = [Info ''Connected'', Stats stats1] \<and>
   received (clients (snd (broadcastStats store3)) ! 4) = [Stats stats1] \<and>
   map cid (clients (snd (broadcastStats (socket_closed 4 store3)))) = [1, 2, 3, 5]"
proof -
  have r: "reachable store3"
    by (simp add: store3_def store1_def store0_def)
  have s: "Project_docs store3 = [project2]" "Task_docs store3 = [task5]"
    by (simp_all add: store3_def store1_def store0_def)
  have c: "clients store3 =
      viewers @
       [\<lparr> cid = 4, readyState = 1, sent = [Info ''Connected''],
          received = [Info ''Connected''], intact = False \<rparr>,
        \<lparr> cid = 5, readyState = 1, sent = [], received = [], intact = True \<rparr>]"
    by (simp add: store3_def)
  have n: "(1::nat) < length (clients store3)" "(3::nat) < length (clients store3)"
    "(4::nat) < length (clients store3)"
    by (simp_all add: c viewers_def)
  note b = broadcast_is_best_effort [OF r]
  from b n(1) have one: "clients (snd (broadcastStats store3)) ! 1 = clients store3 ! 1"
    by (simp add: c viewers_def)
  from b n(2) have three:
    "received (clients (snd (broadcastStats store3)) ! 3) = [Info ''Connected'']"
    "sent (clients (snd (broadcastStats store3)) ! 3) = [Info ''Connected'', Stats stats1]"
    by (simp_all add: c s viewers_def)
  from b n(3) have four: "received (clients (snd (broadcastStats store3)) ! 4) = [Stats stats1]"
    by (simp add: c s viewers_def)
  have "map cid (clients (snd (broadcastStats (socket_closed 4 store3)))) =
      map cid (clients (socket_closed 4 store3))"
    using r by (simp add: broadcastStats_reachable)
  then have five: "map cid (clients (snd (broadcastStats (socket_closed 4 store3)))) = [1, 2, 3, 5]"
    by (simp add: socket_closed_def c viewers_def)
  from r one three four five show ?thesis
    by (simp add: c viewers_def)
qed

subsection \<open>A new connection\<close>

lemma completion_all_done: "0 < n \<Longrightarrow> completion n n = 100"
proof -
  assume "0 < n"
  moreover have "fl 1 = 1" by code_simp
  moreover have "fl 100 = 100" by code_simp
  moreover have "\<lfloor>(100::rat) + 1 / 2\<rfloor> = 100" by code_simp
  ultimately show ?thesis
    by (simp add: completion_def js_div_def js_mul_def Math_round_def)
qed

lemma ws_send_fresh:
  "k \<notin> cid ` set cs \<Longrightarrow> map (\<lambda>c. if cid c = k then send c m else c) cs = cs"
  by (induction cs) auto

lemma greet_accept:
  "k \<notin> cid ` set (clients s) \<Longrightarrow>
   onConnection_greet k (accept k s) =
     s\<lparr> clients := clients s @
       [\<lparr> cid = k, readyState = 1, sent = [Info ''Connected''],
          received = [Info ''Connected''], intact = True \<rparr>] \<rparr>"
  by (simp add: onConnection_greet_def accept_def ws_send_def ws_send_fresh send_def)

text \<open>
  C5, as stated, asks that no broadcast triggered by a later mutation reach the new
  connection between its \<^verbatim>\<open>info\<close> and its \<^verbatim>\<open>stats\<close> message. The handler is
  suspended between its two sends (\<^verbatim>\<open>await computeStats()\<close>), and the socket is
  already in \<^verbatim>\<open>wss.clients\<close>. When a toggle is handled during the suspension, its
  broadcast reaches connection 7 right after the greeting, before the handler has sent
  its own snapshot, and the connection ends with two \<^verbatim>\<open>stats\<close> messages.
\<close>

theorem broadcast_between_greeting_and_stats:
  "map sent (clients greeted) = [[Info ''Connected'']] \<and>
   map sent (clients toggled_meanwhile) = [[Info ''Connected'', Stats stats_done]] \<and>
   map sent (clients resumed) = [[Info ''Connected'', Stats stats_done, Stats stats_done]]"
proof -
  have g: "greeted =
      store1\<lparr> clients := [\<lparr> cid = 7, readyState = 1, sent = [Info ''Connected''],
                              received = [Info ''Connected''], intact = True \<rparr>] \<rparr>"
    unfolding greeted_def
    by (subst greet_accept) (simp_all add: store1_def store0_def)
  have id5: "t_id task5 = 5" "completed task5 = False"
    by (simp_all add: task5_def)
  have st: "stats_of [project2] [task5\<lparr> completed := True, t_updatedAt := 1700000000000 \<rparr>] =
      stats_done"
    by (simp add: stats_of_def stats_done_def stats1_def project2_def task5_def summarise_def
          progress_or_0_def completion_all_done)
  have t: "toggled_meanwhile =
      store1\<lparr> Task_docs := [task5\<lparr> completed := True, t_updatedAt := 1700000000000 \<rparr>],
               broadcasts := 1,
               clients := [\<lparr> cid = 7, readyState = 1,
                              sent = [Info ''Connected'', Stats stats_done],
                              received = [Info ''Connected'', Stats stats_done],
                              intact = True \<rparr>] \<rparr>"
    unfolding toggled_meanwhile_def g
    by (simp add: post_tasks_id_toggle_def Task_findById_def Task_save_def
          broadcastStats_reachable fanout_def send_def st id5
          store1_def store0_def anonymous_def)
  have r: "resumed =
      store1\<lparr> Task_docs := [task5\<lparr> completed := True, t_updatedAt := 1700000000000 \<rparr>],
               broadcasts := 1,
               clients := [\<lparr> cid = 7, readyState = 1,
                 sent = [Info ''Connected'', Stats stats_done, Stats stats_done],
                 received = [Info ''Connected'', Stats stats_done, Stats stats_done],
                 intact = True \<rparr>] \<rparr>"
    unfolding resumed_def t
    by (simp add: onConnection_resume_def computeStats_def Project_find_def Task_find_def
          ws_send_def send_def st store1_def store0_def)
  show ?thesis
    by (simp add: g t r)
qed

text \<open>
  C5, amended. A newly accepted connection is sent the \<^verbatim>\<open>info\<close> message first, in the
  same turn in which it is registered, so nothing can reach it earlier. When the store
  answers and no other handler runs while the connection handler is suspended, the
  handler sends exactly one \<^verbatim>\<open>stats\<close> message next, carrying the snapshot of the current
  collections, and the connection has got exactly these two messages; no other
  connection is sent anything. When a broadcast runs during the suspension, its message
  is delivered between the two.
\<close>

theorem onConnection_info_then_stats:
  assumes "reachable s" and "k \<notin> cid ` set (clients s)"
  shows "onConnection k (accept k s) =
      (None, s\<lparr> clients := clients s @
         [\<lparr> cid = k, readyState = 1,
            sent = [Info ''Connected'', Stats (stats_of (Project_docs s) (Task_docs s))],
            received = [Info ''Connected'', Stats (stats_of (Project_docs s) (Task_docs s))],
            intact = True \<rparr>] \<rparr>) \<and>
     map sent (clients (snd (onConnection_resume k
         (snd (broadcastStats (onConnection_greet k (accept k s))))))) =
       map (\<lambda>c. if readyState c = 1
                 then sent c @ [Stats (stats_of (Project_docs s) (Task_docs s))]
                 else sent c) (clients s) @
       [[Info ''Connected'', Stats (stats_of (Project_docs s) (Task_docs s)),
         Stats (stats_of (Project_docs s) (Task_docs s))]]"
proof
  show "onConnection k (accept k s) =
      (None, s\<lparr> clients := clients s @
         [\<lparr> cid = k, readyState = 1,
            sent = [Info ''Connected'', Stats (stats_of (Project_docs s) (Task_docs s))],
            received = [Info ''Connected'', Stats (stats_of (Project_docs s) (Task_docs s))],
            intact = True \<rparr>] \<rparr>)"
    using assms
    by (simp add: onConnection_def greet_accept onConnection_resume_def computeStats_def
          Project_find_def Task_find_def ws_send_def ws_send_fresh send_def)
next
  let ?m = "Stats (stats_of (Project_docs s) (Task_docs s))"
  have "k \<notin> cid ` set (fanout ?m (clients s))"
    using assms(2) fanout_cid [of ?m "clients s"] by (metis set_map)
  then have k: "map (\<lambda>c. if cid c = k then send c ?m else c) (fanout ?m (clients s)) =
      fanout ?m (clients s)"
    by (rule ws_send_fresh)
  show "map sent (clients (snd (onConnection_resume k
         (snd (broadcastStats (onConnection_greet k (accept k s))))))) =
       map (\<lambda>c. if readyState c = 1 then sent c @ [?m] else sent c) (clients s) @
       [[Info ''Connected'', ?m, ?m]]"
    using assms
    by (simp add: greet_accept broadcastStats_reachable onConnection_resume_def computeStats_def
          Project_find_def Task_find_def ws_send_def k [unfolded fanout_def] fanout_def)
       (auto simp: send_def)
qed

theorem onConnection_info_then_stats_witness:
  "reachable store2 \<and> 7 \<notin> cid ` set (clients store2) \<and>
   map sent (clients (snd (onConnection 7 (accept 7 store2)))) =
     [[], [], [Info ''Connected''], [Info ''Connected'', Stats stats1]]"
proof -
  have r: "reachable store2"
    by (simp add: store2_def store1_def store0_def)
  have s: "Project_docs store2 = [project2]" "Task_docs store2 = [task5]"
    "clients store2 = viewers"
    by (simp_all add: store2_def store1_def store0_def)
  have k: "7 \<notin> cid ` set (clients store2)"
    by (simp add: s viewers_def)
  from onConnection_info_then_stats [OF r k] r k show ?thesis
    by (simp add: s viewers_def)
qed

subsection \<open>Broadcasts of the mutating routes\<close>

lemma html_mutation_broadcasts_once:
  assumes "h = post_projects \<or> h = post_projects_id_tasks \<or> h = post_tasks_id_toggle"
    and "fst (h s req) = Redirect l"
  shows "broadcasts (snd (h s req)) = Suc (broadcasts s)"
proof (cases "reachable s")
  case True
  with assms show ?thesis
    by (auto simp: post_projects_def post_projects_id_tasks_def post_tasks_id_toggle_def
          Project_save_def Task_create_def Task_save_def Project_findById_def Task_findById_def
          Let_def broadcastStats_reachable
          split: option.splits if_splits)
next
  case False
  with assms show ?thesis
    by (auto simp: post_projects_def post_projects_id_tasks_def post_tasks_id_toggle_def
          Project_save_def Task_create_def Task_save_def Project_findById_def Task_findById_def
          Let_def
          split: option.splits if_splits)
qed

lemma api_post_projects_never_broadcasts:
  "broadcasts (snd (api_post_projects s req)) = broadcasts s \<and>
   clients (snd (api_post_projects s req)) = clients s"
  by (auto simp: api_post_projects_def Project_save_def Let_def split: option.splits)

lemma alice_authenticated:
  "authMiddleware env0 (alice_request_3\<lparr> body_title := Some ''B'' \<rparr>) =
     Next (alice_request_3\<lparr> body_title := Some ''B'',
       req_user := Some \<lparr> user_id = 1, user_name = Some ''Alice'',
         user_email = Some ''alice@example.org'', iat = 1700000000, expires = 1700604800 \<rparr>,
       locals_user := Some \<lparr> user_id = 1, user_name = Some ''Alice'',
         user_email = Some ''alice@example.org'', iat = 1700000000, expires = 1700604800 \<rparr> \<rparr>)"
  by (simp add: authMiddleware_def alice_request_3_def anonymous_def register_token_3_def
        jwt_sign_def jwt_verify_def identity.extend_def seven_days_def env0_def alice_def
        Let_def)

text \<open>
  C2 at the JSON API route. Alice, logged in, posts the title \<^verbatim>\<open>B\<close> to
  \<^verbatim>\<open>/api/projects\<close>: the project is saved and returned, \<^verbatim>\<open>broadcastStats\<close> is not
  called and no connection is sent anything. The same body posted to \<^verbatim>\<open>/projects\<close>
  saves the project and broadcasts once.
\<close>

theorem api_project_creation_does_not_broadcast:
  "fst (app env0 store2 POST_api_projects (alice_request_3\<lparr> body_title := Some ''B'' \<rparr>)) =
     Json project6 \<and>
   Project_docs (snd (app env0 store2 POST_api_projects
       (alice_request_3\<lparr> body_title := Some ''B'' \<rparr>))) = [project2, project6] \<and>
   broadcasts (snd (app env0 store2 POST_api_projects
       (alice_request_3\<lparr> body_title := Some ''B'' \<rparr>))) = 0 \<and>
   clients (snd (app env0 store2 POST_api_projects
       (alice_request_3\<lparr> body_title := Some ''B'' \<rparr>))) = viewers \<and>
   Project_docs (snd (app env0 store2 POST_projects
       (alice_request_3\<lparr> body_title := Some ''B'' \<rparr>))) = [project2, project6] \<and>
   broadcasts (snd (app env0 store2 POST_projects
       (alice_request_3\<lparr> body_title := Some ''B'' \<rparr>))) = 1"
  unfolding app_def alice_authenticated
  by (simp add: guarded_def requireAuth_def
        api_post_projects_def post_projects_def Project_save_def js_or_def truthy_def
        broadcastStats_reachable Let_def
        alice_request_3_def anonymous_def store2_def store1_def store0_def project6_def)

subsection \<open>Failures that are not answered\<close>

lemma alice_authenticated_no_body:
  "authMiddleware env0 alice_request_3 =
     Next (alice_request_3\<lparr>
       req_user := Some \<lparr> user_id = 1, user_name = Some ''Alice'',
         user_email = Some ''alice@example.org'', iat = 1700000000, expires = 1700604800 \<rparr>,
       locals_user := Some \<lparr> user_id = 1, user_name = Some ''Alice'',
         user_email = Some ''alice@example.org'', iat = 1700000000, expires = 1700604800 \<rparr> \<rparr>)"
  by (simp add: authMiddleware_def alice_request_3_def anonymous_def register_token_3_def
        jwt_sign_def jwt_verify_def identity.extend_def seven_days_def env0_def alice_def
        Let_def)

text \<open>
  C4 at the JSON API route and at the toggle of the first listing. Alice, logged in,
  posts a body with no \<^verbatim>\<open>title\<close> to \<^verbatim>\<open>/api/projects\<close>: \<^verbatim>\<open>p.save()\<close> rejects with
  the validation error, the handler has no \<^verbatim>\<open>try\<close>, and it writes no response. The
  same body posted to \<^verbatim>\<open>/projects\<close> is answered with status 400. Toggling task 9,
  which does not exist, throws a TypeError in the handler of the first listing, which
  writes no response either; the handler of the third listing answers with status 404.
  In all four cases no document is written and nothing is broadcast.
\<close>

theorem unchecked_failure_is_not_answered:
  "app env0 store2 POST_api_projects alice_request_3 = (Rejected ValidationError, store2) \<and>
   app env0 store2 POST_projects alice_request_3 = (Render 400 ''new-project'', store2) \<and>
   post_tasks_id_toggle_1 store2 (anonymous\<lparr> params_id := Some 9 \<rparr>) =
     (Rejected TypeError, store2) \<and>
   post_tasks_id_toggle store2 (anonymous\<lparr> params_id := Some 9 \<rparr>) =
     (Render 404 ''error'', store2)"
proof -
  have "Task_findById store2 (params_id (anonymous\<lparr> params_id := Some 9 \<rparr>)) = Inr None"
    by (simp add: Task_findById_def store2_def store1_def store0_def task5_def)
  then have toggles:
    "post_tasks_id_toggle_1 store2 (anonymous\<lparr> params_id := Some 9 \<rparr>) =
       (Rejected TypeError, store2)"
    "post_tasks_id_toggle store2 (anonymous\<lparr> params_id := Some 9 \<rparr>) =
       (Render 404 ''error'', store2)"
    by (simp_all add: post_tasks_id_toggle_1_def post_tasks_id_toggle_def)
  have posts:
    "app env0 store2 POST_api_projects alice_request_3 = (Rejected ValidationError, store2)"
    "app env0 store2 POST_projects alice_request_3 = (Render 400 ''new-project'', store2)"
    unfolding app_def alice_authenticated_no_body
    by (simp_all add: guarded_def requireAuth_def api_post_projects_def post_projects_def
          Project_save_def js_or_def truthy_def Let_def alice_request_3_def anonymous_def)
  from posts toggles show ?thesis by simp
qed

subsection \<open>Tokens\<close>

lemma token_round_trip_3:
  assumes "JWT_SECRET e' = JWT_SECRET e" and "clock e' < clock e + seven_days"
  shows "authMiddleware e' (req\<lparr> cookie_token := Some (register_token_3 e u) \<rparr>) =
     Next (req\<lparr> cookie_token := Some (register_token_3 e u),
       req_user := Some \<lparr> user_id = u_id u, user_name = Some (u_name u),
         user_email = Some (u_email u), iat = clock e, expires = clock e + seven_days \<rparr>,
       locals_user := Some \<lparr> user_id = u_id u, user_name = Some (u_name u),
         user_email = Some (u_email u), iat = clock e, expires = clock e + seven_days \<rparr> \<rparr>)"
  using assms
  by (simp add: authMiddleware_def register_token_3_def jwt_sign_def jwt_verify_def Let_def
        identity.extend_def)

lemma token_round_trip_1:
  assumes "JWT_SECRET e' = JWT_SECRET e" and "clock e' < clock e + seven_days"
  shows "authMiddleware e' (req\<lparr> cookie_token := Some (register_token_1 e u) \<rparr>) =
     Next (req\<lparr> cookie_token := Some (register_token_1 e u),
       req_user := Some \<lparr> user_id = u_id u, user_name = None, user_email = None,
         iat = clock e, expires = clock e + seven_days \<rparr>,
       locals_user := Some \<lparr> user_id = u_id u, user_name = None, user_email = None,
         iat = clock e, expires = clock e + seven_days \<rparr> \<rparr>)"
  using assms
  by (simp add: authMiddleware_def register_token_1_def jwt_sign_def jwt_verify_def Let_def
        identity.extend_def)

lemma token_expired:
  assumes "clock e + seven_days \<le> clock e'"
    and "t = register_token_1 e u \<or> t = register_token_3 e u"
  shows "authMiddleware e' (req\<lparr> cookie_token := Some t \<rparr>) =
           Next (req\<lparr> cookie_token := Some t, req_user := None, locals_user := None \<rparr>)"
  using assms
  by (auto simp: authMiddleware_def register_token_1_def register_token_3_def jwt_sign_def
        jwt_verify_def Let_def identity.extend_def)

lemma token_tampered:
  assumes "c' \<noteq> c"
  shows "authMiddleware e (req\<lparr> cookie_token := Some (Jwt c' (HS256 k c)) \<rparr>) =
           Next (req\<lparr> cookie_token := Some (Jwt c' (HS256 k c)),
                      req_user := None, locals_user := None \<rparr>)"
  using assms by (simp add: authMiddleware_def jwt_verify_def)

text \<open>
  C6 at the register route of the first listing (lines 143-144). Alice registers with
  the name \<^verbatim>\<open>Alice\<close> and the email \<^verbatim>\<open>alice@example.org\<close>; a minute later a request
  carries the cookie she was given. \<^verbatim>\<open>authMiddleware\<close> accepts the token, and the
  identity it yields has her id and neither her name nor her email: the route signs
  \<^verbatim>\<open>{ id: user._id }\<close> only.
\<close>

theorem register_token_1_carries_id_only:
  "authMiddleware a_minute_later alice_request_1 =
     Next (alice_request_1\<lparr>
       req_user := Some \<lparr> user_id = 1, user_name = None, user_email = None,
         iat = 1700000000, expires = 1700604800 \<rparr>,
       locals_user := Some \<lparr> user_id = 1, user_name = None, user_email = None,
         iat = 1700000000, expires = 1700604800 \<rparr> \<rparr>) \<and>
   u_name alice = ''Alice'' \<and> u_email alice = ''alice@example.org''"
  by (simp add: authMiddleware_def alice_request_1_def anonymous_def register_token_1_def
        jwt_sign_def jwt_verify_def identity.extend_def seven_days_def env0_def alice_def
        a_minute_later_def JWT_SECRET_def Let_def)

subsection \<open>Double arithmetic\<close>

text \<open>
  The rounding of \<open>fl\<close>: the exponent brackets its argument, and the result is within
  half a unit in the last place, a relative error of at most \<open>2 ^ - 53\<close>.
\<close>

lemma pow2_powi: "pow2 e = 2 powi e"
  by (simp add: pow2_def power_int_def power_inverse [symmetric] inverse_eq_divide power_one_over)

lemma pow2_pos [simp]: "0 < pow2 e"
  by (simp add: pow2_powi)

lemma pow2_nz [simp]: "pow2 e \<noteq> 0"
  by (metis pow2_pos less_irrefl)

lemma pow2_ge0 [simp]: "0 \<le> pow2 e"
  by (rule less_imp_le) simp

lemma pow2_add: "pow2 (a + b) = pow2 a * pow2 b"
  by (simp add: pow2_powi power_int_add)

lemma pow2_diff: "pow2 (a - b) = pow2 a / pow2 b"
  by (simp add: pow2_powi power_int_diff)

lemma pow2_less_iff: "pow2 a < pow2 b \<longleftrightarrow> a < b"
proof
  assume "pow2 a < pow2 b"
  show "a < b"
  proof (rule ccontr)
    assume "\<not> a < b"
    then have "b \<le> a" by simp
    then have "(2::rat) powi b \<le> 2 powi a" by (intro power_int_increasing) simp_all
    with \<open>pow2 a < pow2 b\<close> show False by (simp add: pow2_powi)
  qed
next
  assume "a < b"
  then show "pow2 a < pow2 b"
    by (simp add: pow2_powi power_int_strict_increasing)
qed

lemma ilog2_bounds:
  "1 \<le> n \<Longrightarrow> 0 \<le> ilog2 n \<and> 2 ^ nat (ilog2 n) \<le> n \<and> n < 2 * 2 ^ nat (ilog2 n)"
proof (induction n rule: ilog2.induct)
  case (1 n)
  show ?case
  proof (cases "n < 2")
    case True
    with "1.prems" show ?thesis by (simp add: ilog2.simps)
  next
    case False
    then have h: "1 \<le> n div 2" by simp
    from "1.IH" [OF False h]
    have ih: "0 \<le> ilog2 (n div 2)" "2 ^ nat (ilog2 (n div 2)) \<le> n div 2"
      "n div 2 < 2 * 2 ^ nat (ilog2 (n div 2))" by simp_all
    have e: "ilog2 n = 1 + ilog2 (n div 2)" using False by (simp add: ilog2.simps)
    have p: "(2::int) ^ nat (1 + ilog2 (n div 2)) = 2 * 2 ^ nat (ilog2 (n div 2))"
      using ih(1) by (simp add: nat_add_distrib)
    show ?thesis
      unfolding e p using ih by (auto simp: algebra_simps)
  qed
qed


lemma ratio_bounds:
  fixes A B P Q :: rat
  assumes "0 < P" "0 < Q" "P \<le> A" "A < 2 * P" "Q \<le> B" "B < 2 * Q"
  shows "P / Q / 2 < A / B" and "A / B < 2 * (P / Q)"
proof -
  have pos: "0 < A" "0 < B" using assms by simp_all
  have "P * B < P * (2 * Q)" using assms by (intro mult_strict_left_mono) simp_all
  also have "\<dots> \<le> A * (2 * Q)" using assms by (intro mult_right_mono) simp_all
  finally have "P * B < A * (2 * Q)" .
  then show "P / Q / 2 < A / B"
    using pos assms(2) by (simp add: field_simps)
  have "A * Q < 2 * P * Q" using assms by (intro mult_strict_right_mono) simp_all
  also have "\<dots> \<le> 2 * P * B" using assms by (intro mult_left_mono) simp_all
  finally have "A * Q < 2 * P * B" .
  then show "A / B < 2 * (P / Q)"
    using pos assms(2) by (simp add: field_simps)
qed

lemma pow2_nonneg: "0 \<le> e \<Longrightarrow> pow2 e = 2 ^ nat e"
  by (simp add: pow2_def)

lemma pow2_pred: "pow2 (d - 1) = pow2 d / 2"
  using pow2_diff [of d 1] by (simp add: pow2_def)

lemma exponent_bounds:
  assumes "0 < x"
  shows "pow2 (exponent x) \<le> x \<and> x < 2 * pow2 (exponent x)"
proof -
  obtain a b where q: "quotient_of x = (a, b)" by (cases "quotient_of x")
  then have b: "0 < b" and x: "x = of_int a / of_int b"
    using quotient_of_denom_pos quotient_of_div by blast+
  from assms x b have a: "0 < a"
    by (simp add: zero_less_divide_iff)
  let ?d = "ilog2 a - ilog2 b"
  from ilog2_bounds [of a] a
  have la: "0 \<le> ilog2 a" "(2::int) ^ nat (ilog2 a) \<le> a" "a < 2 * 2 ^ nat (ilog2 a)" by simp_all
  from ilog2_bounds [of b] b
  have lb: "0 \<le> ilog2 b" "(2::int) ^ nat (ilog2 b) \<le> b" "b < 2 * 2 ^ nat (ilog2 b)" by simp_all
  have A: "(2::rat) ^ nat (ilog2 a) \<le> of_int a" "(of_int a :: rat) < 2 * 2 ^ nat (ilog2 a)"
    using la(2,3) by (metis of_int_le_iff of_int_numeral of_int_power,
                      metis of_int_less_iff of_int_mult of_int_numeral of_int_power)
  have B: "(2::rat) ^ nat (ilog2 b) \<le> of_int b" "(of_int b :: rat) < 2 * 2 ^ nat (ilog2 b)"
    using lb(2,3) by (metis of_int_le_iff of_int_numeral of_int_power,
                      metis of_int_less_iff of_int_mult of_int_numeral of_int_power)
  have d: "pow2 ?d = 2 ^ nat (ilog2 a) / 2 ^ nat (ilog2 b)"
    using la(1) lb(1) by (simp add: pow2_diff pow2_nonneg)
  have lo: "pow2 ?d / 2 < x" and hi: "x < 2 * pow2 ?d"
    unfolding d x using ratio_bounds [OF _ _ A B] by simp_all
  have e: "exponent x = (if pow2 ?d \<le> x then ?d else ?d - 1)"
    by (simp add: exponent_def q)
  show ?thesis
  proof (cases "pow2 ?d \<le> x")
    case True
    with e hi show ?thesis by simp
  next
    case False
    with e lo show ?thesis by (simp add: pow2_pred)
  qed
qed

lemma round_half_even_error: "\<bar>of_int (round_half_even r) - r\<bar> \<le> 1 / 2"
proof -
  have "of_int \<lfloor>r\<rfloor> \<le> r" "r < of_int \<lfloor>r\<rfloor> + 1" by linarith+
  then show ?thesis
    by (auto simp: round_half_even_def Let_def)
qed

lemma fl_error:
  assumes "0 < x" and "- 1022 \<le> exponent x"
  shows "\<bar>fl x - x\<bar> \<le> x * pow2 (- 53)"
proof -
  let ?e = "exponent x"
  let ?ulp = "pow2 (?e - 52)"
  have f: "fl x = of_int (round_half_even (x / ?ulp)) * ?ulp"
    using assms by (simp add: fl_def max_def Let_def)
  have nz: "?ulp \<noteq> 0" by simp
  have "fl x - x = (of_int (round_half_even (x / ?ulp)) - x / ?ulp) * ?ulp"
    unfolding f using nz by (simp add: left_diff_distrib)
  then have "\<bar>fl x - x\<bar> = \<bar>of_int (round_half_even (x / ?ulp)) - x / ?ulp\<bar> * \<bar>?ulp\<bar>"
    by (simp only: abs_mult)
  also have "\<dots> = \<bar>of_int (round_half_even (x / ?ulp)) - x / ?ulp\<bar> * ?ulp"
    using pow2_pos [of "?e - 52"] by (simp only: abs_of_pos)
  also have "\<dots> \<le> 1 / 2 * ?ulp"
    by (intro mult_right_mono round_half_even_error) simp
  also have "\<dots> = pow2 ?e * pow2 (- 53)"
    using pow2_add [of ?e "- 53"] pow2_pred [of "?e - 52"] by simp
  also have "\<dots> \<le> x * pow2 (- 53)"
    using exponent_bounds [OF assms(1)] by (intro mult_right_mono) simp_all
  finally show ?thesis .
qed


lemma exponent_ge:
  assumes "pow2 k \<le> x"
  shows "k \<le> exponent x"
proof -
  have "0 < x" using assms pow2_pos [of k] by linarith
  from exponent_bounds [OF this] assms
  have "pow2 k < 2 * pow2 (exponent x)" by linarith
  also have "\<dots> = pow2 (exponent x + 1)"
    using pow2_add [of "exponent x" 1] by (simp add: pow2_def)
  finally show ?thesis by (simp add: pow2_less_iff)
qed

lemma floor_near:
  fixes y z :: rat and n r D :: int
  assumes D: "0 < D" and r: "0 < r" "r < D"
    and z: "z + 1 / 2 = of_int n + of_int r / of_int D"
    and near: "\<bar>y - z\<bar> < 1 / of_int D"
  shows "\<lfloor>y + 1 / 2\<rfloor> = n"
proof (rule floor_unique)
  have D': "(0::rat) < of_int D" using D by simp
  have "1 \<le> r" "r \<le> D - 1" using r by simp_all
  then have "(1::rat) \<le> of_int r" "(of_int r :: rat) \<le> of_int D - 1"
    by (metis of_int_1 of_int_le_iff, metis of_int_1 of_int_diff of_int_le_iff)
  then have lo: "1 / of_int D \<le> (of_int r :: rat) / of_int D"
    and hi: "(of_int r :: rat) / of_int D \<le> 1 - 1 / of_int D"
    using D' by (simp_all add: field_simps)
  from near have "z - 1 / of_int D < y" "y < z + 1 / of_int D" by linarith+
  with z lo hi show "of_int n \<le> y + 1 / 2" "y + 1 / 2 < of_int n + 1" by linarith+
qed

text \<open>
  Away from ties the snapshot's percentage is the exact one: when \<open>100 * c / t\<close> does
  not lie halfway between two integers (\<open>200 * c\<close> is no odd multiple of \<open>t\<close>) and
  there are fewer than \<open>2 ^ 32\<close> tasks (the bound of an array's length), the two
  roundings of the double arithmetic do not change the result of \<^verbatim>\<open>Math.round\<close>.
\<close>

lemma completion_exact_off_ties:
  assumes t: "0 < t" "t < 2 ^ 32" and c: "c \<le> t"
    and no_tie: "(200 * c + t) mod (2 * t) \<noteq> 0"
  shows "completion c t = Math_round (100 * of_nat c / of_nat t)"
proof (cases "c = 0")
  case True
  have "\<lfloor>(1::rat) / 2\<rfloor> = 0" by code_simp
  with True show ?thesis
    by (simp add: completion_def js_div_def js_mul_def fl_def Math_round_def)
next
  case False
  define u :: rat where "u = pow2 (- 53)"
  define z0 :: rat where "z0 = of_nat c / of_nat t"
  define x1 where "x1 = fl z0"
  define y where "y = fl (x1 * 100)"
  have u: "u = 1 / 2 ^ 53" by (simp add: u_def pow2_def)
  have tpos: "(0::rat) < of_nat t" using t by simp
  have cpos: "(1::rat) \<le> of_nat c" using False by (simp add: Suc_le_eq)
  have tlt: "(of_nat t :: rat) < 2 ^ 32"
    using t(2) by (metis of_nat_less_iff of_nat_numeral of_nat_power)
  have z0_le: "z0 \<le> 1" using c tpos by (simp add: z0_def)
  define w :: rat where "w = pow2 (- 32)"
  have w: "w = 1 / 2 ^ 32" by (simp add: w_def pow2_def)
  have w_pos: "0 < w" by (simp add: w_def)
  have "w < 1 / (of_nat t :: rat)"
    unfolding w using tpos tlt by (simp add: field_simps)
  also have "\<dots> \<le> z0"
    unfolding z0_def using cpos tpos by (simp add: field_simps)
  finally have z0_lo: "w < z0" .
  with w_pos have z0_pos: "0 < z0" by linarith
  have "- 32 \<le> exponent z0"
    by (rule exponent_ge) (use z0_lo w_def in simp)
  then have e1: "\<bar>x1 - z0\<bar> \<le> z0 * u"
    unfolding x1_def u_def by (intro fl_error z0_pos) simp
  have u_small: "0 < u" "u \<le> 1 / 2" by (simp_all add: u)
  have x1_lo: "z0 / 2 \<le> x1"
  proof -
    have "z0 * u \<le> z0 * (1 / 2)" using u_small z0_pos by (intro mult_left_mono) simp_all
    with e1 show ?thesis by linarith
  qed
  have x1_hi: "x1 \<le> z0 + z0 * u" using e1 by linarith
  have x1_pos: "0 < x1 * 100" using x1_lo z0_pos by linarith
  have "pow2 (- 32) \<le> x1 * 100" using x1_lo z0_lo w_pos w_def by linarith
  then have "- 32 \<le> exponent (x1 * 100)" by (rule exponent_ge)
  then have e2: "\<bar>y - x1 * 100\<bar> \<le> x1 * 100 * u"
    unfolding y_def u_def by (intro fl_error x1_pos) simp
  have zu: "z0 * u \<le> u" using z0_le u_small by (simp add: mult_left_le_one_le)
  have "x1 * 100 * u \<le> (z0 + z0 * u) * 100 * u"
    using x1_hi u_small by (intro mult_right_mono) simp_all
  also have "\<dots> \<le> (1 + u) * 100 * u"
  proof -
    have "z0 + z0 * u \<le> 1 + u" using z0_le zu by linarith
    then have "(z0 + z0 * u) * 100 \<le> (1 + u) * 100" by simp
    then show ?thesis using u_small(1) by (intro mult_right_mono) simp_all
  qed
  finally have b2: "x1 * 100 * u \<le> (1 + u) * 100 * u" .
  have "y - 100 * z0 = (y - x1 * 100) + 100 * (x1 - z0)" by simp
  then have "\<bar>y - 100 * z0\<bar> \<le> \<bar>y - x1 * 100\<bar> + \<bar>100 * (x1 - z0)\<bar>"
    by (simp only: abs_triangle_ineq)
  also have "\<bar>100 * (x1 - z0)\<bar> = 100 * \<bar>x1 - z0\<bar>"
    by (simp only: abs_mult abs_numeral)
  finally have "\<bar>y - 100 * z0\<bar> \<le> \<bar>y - x1 * 100\<bar> + 100 * \<bar>x1 - z0\<bar>" .
  also have "\<dots> \<le> (1 + u) * 100 * u + 100 * u"
  proof (rule add_mono)
    show "\<bar>y - x1 * 100\<bar> \<le> (1 + u) * 100 * u"
      using e2 b2 by (rule order_trans)
    have "\<bar>x1 - z0\<bar> \<le> u" using e1 zu by (rule order_trans)
    then show "100 * \<bar>x1 - z0\<bar> \<le> 100 * u" by simp
  qed
  also have "\<dots> < 1 / 2 ^ 33" by (simp add: u)
  also have "\<dots> < 1 / (2 * of_nat t)"
    using tpos tlt by (simp add: field_simps)
  finally have near0: "\<bar>y - 100 * z0\<bar> < 1 / (2 * of_nat t)" .
  define N :: int where "N = int (200 * c + t)"
  define D :: int where "D = int (2 * t)"
  have D: "0 < D" using t by (simp add: D_def)
  have Dr: "(of_int D :: rat) = 2 * of_nat t" by (simp add: D_def)
  have Nr: "(of_int N :: rat) = 200 * of_nat c + of_nat t" by (simp add: N_def)
  have near: "\<bar>y - 100 * z0\<bar> < 1 / of_int D" using near0 by (simp only: Dr)
  have "N mod D \<noteq> 0"
    using no_tie unfolding N_def D_def by (metis of_nat_0 of_nat_eq_iff zmod_int)
  moreover have "0 \<le> N mod D" and r2: "N mod D < D"
    using D by simp_all
  ultimately have r1: "0 < N mod D" by linarith
  note r = r1 r2
  have "N = N div D * D + N mod D" by (simp only: div_mult_mod_eq)
  then have "(of_int N :: rat) = of_int (N div D) * of_int D + of_int (N mod D)"
    by (metis of_int_add of_int_mult)
  then have "(of_int N :: rat) / of_int D = of_int (N div D) + of_int (N mod D) / of_int D"
    using D by (simp add: add_divide_distrib)
  moreover have "100 * z0 + 1 / 2 = (of_int N :: rat) / of_int D"
    unfolding Nr Dr using tpos by (simp add: z0_def field_simps)
  ultimately have z: "100 * z0 + 1 / 2 = of_int (N div D) + of_int (N mod D) / of_int D"
    by simp
  have "\<lfloor>y + 1 / 2\<rfloor> = N div D"
    using floor_near [OF D r z near] .
  moreover have "\<lfloor>100 * z0 + 1 / 2\<rfloor> = N div D"
  proof (rule floor_near [OF D r z])
    show "\<bar>100 * z0 - 100 * z0\<bar> < 1 / of_int D" using D by simp
  qed
  ultimately have "\<lfloor>y + 1 / 2\<rfloor> = \<lfloor>100 * z0 + 1 / 2\<rfloor>" by simp
  then show ?thesis
    using t False
    by (simp add: completion_def js_div_def js_mul_def Math_round_def y_def x1_def z0_def)
qed

subsection \<open>Snapshot\<close>

lemma computeStats_snapshot:
  assumes "reachable s"
  shows "\<exists>st. computeStats s = Inr st \<and>
     totalProjects st = length (Project_docs s) \<and>
     totalTasks st = length (Task_docs s) \<and>
     projects st = map summarise (Project_docs s) \<and>
     (Task_docs s = [] \<longrightarrow> overallCompletion st = 0) \<and>
     (Task_docs s \<noteq> [] \<longrightarrow>
        overallCompletion st =
          Math_round (js_mul (js_div (of_nat (length (filter completed (Task_docs s))))
                                     (of_nat (length (Task_docs s)))) 100))"
  using assms
  by (simp add: computeStats_def Project_find_def Task_find_def stats_of_def completion_def)

text \<open>
  C1 at a store with forty tasks, twenty-three of them completed. The exact percentage
  is 57.5, which rounds to 58. \<^verbatim>\<open>computeStats\<close> divides first: the double nearest to
  23/40 is a little below 0.575, its product with 100 is the double
  57.49999999999999289..., and \<^verbatim>\<open>Math.round\<close> gives 57.
\<close>

theorem computeStats_rounds_tie_down:
  "computeStats store40 =
     Inr \<lparr> totalProjects = 0, totalTasks = 40, overallCompletion = 57, projects = [] \<rparr> \<and>
   length (filter completed (Task_docs store40)) = 23 \<and>
   js_mul (js_div 23 40) 100 = 8092405580431359 / 2 ^ 47 \<and>
   Math_round (100 * 23 / 40) = 58"
proof -
  have len: "length tasks40 = 40"
    by (simp add: tasks40_def)
  have "filter completed tasks40 =
      map (\<lambda>i. \<lparr> t_id = i, t_title = ''t'', completed = (i < 23), projectId = None,
                  t_createdAt = 1699999000000, t_updatedAt = 1699999000000 \<rparr>)
        (filter (\<lambda>i. i < 23) [0 ..< 40])"
    by (simp add: tasks40_def filter_map comp_def)
  moreover have "filter (\<lambda>i. i < 23) [0 ..< 40] = [0 ..< (23::nat)]"
    by code_simp
  ultimately have n23: "length (filter completed tasks40) = 23"
    by simp
  have prod: "js_mul (js_div 23 40) 100 = 8092405580431359 / 2 ^ 47"
    by code_simp
  have "Math_round (8092405580431359 / 2 ^ 47) = 57"
    by code_simp
  then have c: "completion 23 40 = 57"
    by (simp add: completion_def prod)
  have exact: "Math_round (115 / 2) = 58"
    by code_simp
  show ?thesis
    by (simp add: computeStats_def Project_find_def Task_find_def stats_of_def store40_def
          store0_def len n23 c prod exact)
qed

end
